theory Spec2Isabelle
  imports Main "HOL-Library.Multiset"
begin

section \<open>The in-memory booking store (backend/routes/bookings.js)\<close>

text \<open>
  The route module keeps two module-level variables, \<^verbatim>\<open>let bookings = []\<close> and
  \<^verbatim>\<open>let nextId = 1\<close>, and six handlers over them. The handlers are modelled as
  functions from the store to a reply and the store afterwards.

  A field of a JSON body, of a query string or of a booking object is a JavaScript value
  that may be absent. Text fields are modelled as \<open>string option\<close> and the guest count
  as \<open>int option\<close>, with \<open>None\<close> for \<^verbatim>\<open>undefined\<close>; \<^verbatim>\<open>null\<close> and
  \<^verbatim>\<open>false\<close> take the same branch as \<^verbatim>\<open>undefined\<close> at every test of the source
  (each is falsy). Bodies that carry a fractional number, a numeric string for the guest
  count, an array or an object are outside this model.
\<close>

record booking =
  booking_id :: int
  date :: "string option"
  time :: "string option"
  guests :: "int option"
  name :: "string option"
  email :: "string option"
  phone :: "string option"
  status :: "string option"
  createdAt :: string
  updatedAt :: "string option"

text \<open>\<^verbatim>\<open>req.body\<close> of POST and PUT; POST reads the first six fields, PUT all seven.\<close>

record body =
  body_date :: "string option"
  body_time :: "string option"
  body_guests :: "int option"
  body_name :: "string option"
  body_email :: "string option"
  body_phone :: "string option"
  body_status :: "string option"

record store =
  bookings :: "booking list"
  nextId :: int

definition initial_store :: store where
  "initial_store = \<lparr>bookings = [], nextId = 1\<rparr>"

text \<open>
  The failure replies of the handlers, named by the spec's identifiers:
  \<^item> \<open>MissingField\<close>: status 400, the message that all fields are mandatory (POST);
  \<^item> \<open>InvalidPartySize\<close>: status 400, the message that the number of guests must be
    between 1 and 10 (POST);
  \<^item> \<open>NotFound\<close>: status 404, the message that the booking was not found (GET, PUT,
    DELETE by id);
  \<^item> \<open>DateTimeRequired\<close>: status 400, the message that date and time are mandatory
    (availability check).
\<close>

datatype error = MissingField | InvalidPartySize | NotFound | DateTimeRequired

fun http_status :: "error \<Rightarrow> nat" where
  "http_status MissingField = 400"
| "http_status InvalidPartySize = 400"
| "http_status NotFound = 404"
| "http_status DateTimeRequired = 400"

text \<open>The \<^verbatim>\<open>data\<close> object of the availability reply.\<close>

record summary =
  summary_date :: "string option"
  summary_time :: "string option"
  totalTables :: int
  occupiedTables :: int
  availableTables :: int
  isAvailable :: bool

datatype reply =
    Failure error
  | Listing "booking list" nat
  | Found booking
  | Created booking
  | Updated booking
  | Deleted
  | Availability summary

subsection \<open>JavaScript truthiness and comparison\<close>

text \<open>\<^verbatim>\<open>!v\<close> for a text field: absent or the empty string.\<close>

definition falsy_str :: "string option \<Rightarrow> bool" where
  "falsy_str v = (case v of None \<Rightarrow> True | Some s \<Rightarrow> s = [])"

text \<open>\<^verbatim>\<open>!v\<close> for a number field: absent or zero.\<close>

definition falsy_num :: "int option \<Rightarrow> bool" where
  "falsy_num v = (case v of None \<Rightarrow> True | Some n \<Rightarrow> n = 0)"

text \<open>
  \<^verbatim>\<open>b.id === parseInt(req.params.id)\<close>: the route parameter after \<^verbatim>\<open>parseInt\<close> is
  \<open>Some n\<close>, or \<open>None\<close> for \<^verbatim>\<open>NaN\<close>, which is equal to no id.
\<close>

definition has_id :: "int option \<Rightarrow> booking \<Rightarrow> bool" where
  "has_id i b = (Some (booking_id b) = i)"

text \<open>\<^verbatim>\<open>Array.prototype.findIndex\<close>, with \<open>None\<close> for \<^verbatim>\<open>-1\<close>.\<close>

fun findIndex :: "('a \<Rightarrow> bool) \<Rightarrow> 'a list \<Rightarrow> nat option" where
  "findIndex P [] = None"
| "findIndex P (x # xs) =
     (if P x then Some 0 else map_option Suc (findIndex P xs))"

text \<open>\<^verbatim>\<open>bookings.splice(index, 1)\<close>.\<close>

definition splice1 :: "nat \<Rightarrow> 'a list \<Rightarrow> 'a list" where
  "splice1 k xs = take k xs @ drop (Suc k) xs"

subsection \<open>The handlers\<close>

text \<open>GET /api/bookings\<close>

definition getAllBookings :: "store \<Rightarrow> reply \<times> store" where
  "getAllBookings s = (Listing (bookings s) (length (bookings s)), s)"

text \<open>GET /api/bookings/:id\<close>

definition getBooking :: "int option \<Rightarrow> store \<Rightarrow> reply \<times> store" where
  "getBooking i s =
     (case find (has_id i) (bookings s) of
        None \<Rightarrow> (Failure NotFound, s)
      | Some b \<Rightarrow> (Found b, s))"

text \<open>
  POST /api/bookings. The first test of the handler:
  \<^verbatim>\<open>!date || !time || !guests || !name || !email || !phone\<close>.
\<close>

definition missing_field :: "body \<Rightarrow> bool" where
  "missing_field r =
     (falsy_str (body_date r) \<or> falsy_str (body_time r) \<or> falsy_num (body_guests r) \<or>
      falsy_str (body_name r) \<or> falsy_str (body_email r) \<or> falsy_str (body_phone r))"

text \<open>
  The second test: \<^verbatim>\<open>guests < 1 || guests > 10\<close>. Both comparisons are false on
  \<^verbatim>\<open>undefined\<close>.
\<close>

definition invalid_party_size :: "body \<Rightarrow> bool" where
  "invalid_party_size r =
     (case body_guests r of None \<Rightarrow> False | Some g \<Rightarrow> g < 1 \<or> g > 10)"

text \<open>The object literal \<^verbatim>\<open>newBooking\<close>; \<open>now\<close> is \<^verbatim>\<open>new Date().toISOString()\<close>.\<close>

definition newBooking :: "string \<Rightarrow> body \<Rightarrow> int \<Rightarrow> booking" where
  "newBooking now r n =
     \<lparr>booking_id = n, date = body_date r, time = body_time r, guests = body_guests r,
      name = body_name r, email = body_email r, phone = body_phone r,
      status = Some ''confirmed'', createdAt = now, updatedAt = None\<rparr>"

definition createBooking :: "string \<Rightarrow> body \<Rightarrow> store \<Rightarrow> reply \<times> store" where
  "createBooking now r s =
     (if missing_field r then (Failure MissingField, s)
      else if invalid_party_size r then (Failure InvalidPartySize, s)
      else
        (Created (newBooking now r (nextId s)),
         \<lparr>bookings = bookings s @ [newBooking now r (nextId s)], nextId = nextId s + 1\<rparr>))"

text \<open>
  PUT /api/bookings/:id. Each \<^verbatim>\<open>if (field) booking.field = field\<close> overwrites the
  field when the patch value is truthy; \<^verbatim>\<open>updatedAt\<close> is always assigned.
\<close>

definition patch_str :: "string option \<Rightarrow> string option \<Rightarrow> string option" where
  "patch_str new old = (if falsy_str new then old else new)"

definition patch_num :: "int option \<Rightarrow> int option \<Rightarrow> int option" where
  "patch_num new old = (if falsy_num new then old else new)"

definition apply_patch :: "string \<Rightarrow> body \<Rightarrow> booking \<Rightarrow> booking" where
  "apply_patch now p b =
     b\<lparr>date := patch_str (body_date p) (date b),
       time := patch_str (body_time p) (time b),
       guests := patch_num (body_guests p) (guests b),
       name := patch_str (body_name p) (name b),
       email := patch_str (body_email p) (email b),
       phone := patch_str (body_phone p) (phone b),
       status := patch_str (body_status p) (status b),
       updatedAt := Some now\<rparr>"

text \<open>
  \<^verbatim>\<open>bookings.find\<close> returns the first matching object itself, so the assignments
  change the array's element at that object's index.
\<close>

definition updateBooking :: "string \<Rightarrow> int option \<Rightarrow> body \<Rightarrow> store \<Rightarrow> reply \<times> store" where
  "updateBooking now i p s =
     (case findIndex (has_id i) (bookings s) of
        None \<Rightarrow> (Failure NotFound, s)
      | Some k \<Rightarrow>
          (Updated (apply_patch now p (bookings s ! k)),
           s\<lparr>bookings := (bookings s)[k := apply_patch now p (bookings s ! k)]\<rparr>))"

text \<open>DELETE /api/bookings/:id\<close>

definition deleteBooking :: "int option \<Rightarrow> store \<Rightarrow> reply \<times> store" where
  "deleteBooking i s =
     (case findIndex (has_id i) (bookings s) of
        None \<Rightarrow> (Failure NotFound, s)
      | Some k \<Rightarrow> (Deleted, s\<lparr>bookings := splice1 k (bookings s)\<rparr>))"

text \<open>
  GET /api/bookings/check/availability. The filter of the handler:
  \<^verbatim>\<open>b.date === date && b.time === time && b.status === 'confirmed'\<close>.
\<close>

definition existingBookings :: "string option \<Rightarrow> string option \<Rightarrow> store \<Rightarrow> booking list" where
  "existingBookings d t s =
     filter (\<lambda>b. date b = d \<and> time b = t \<and> status b = Some ''confirmed'') (bookings s)"

definition slotSummary :: "string option \<Rightarrow> string option \<Rightarrow> store \<Rightarrow> summary" where
  "slotSummary d t s =
     \<lparr>summary_date = d, summary_time = t, totalTables = 15,
      occupiedTables = int (length (existingBookings d t s)),
      availableTables = 15 - int (length (existingBookings d t s)),
      isAvailable = (15 - int (length (existingBookings d t s)) > 0)\<rparr>"

definition checkAvailability :: "string option \<Rightarrow> string option \<Rightarrow> store \<Rightarrow> reply \<times> store" where
  "checkAvailability d t s =
     (if falsy_str d \<or> falsy_str t then (Failure DateTimeRequired, s)
      else (Availability (slotSummary d t s), s))"

subsection \<open>Sequences of requests\<close>

datatype request =
    GetAll
  | Get "int option"
  | Post string body
  | Put string "int option" body
  | Delete "int option"
  | Check "string option" "string option"

fun handle :: "request \<Rightarrow> store \<Rightarrow> reply \<times> store" where
  "handle GetAll s = getAllBookings s"
| "handle (Get i) s = getBooking i s"
| "handle (Post now r) s = createBooking now r s"
| "handle (Put now i p) s = updateBooking now i p s"
| "handle (Delete i) s = deleteBooking i s"
| "handle (Check d t) s = checkAvailability d t s"

text \<open>The replies to a sequence of requests, served one after the other, and the store left.\<close>

fun serve :: "request list \<Rightarrow> store \<Rightarrow> reply list \<times> store" where
  "serve [] s = ([], s)"
| "serve (q # qs) s =
     (case handle q s of (a, s') \<Rightarrow> (case serve qs s' of (as, s'') \<Rightarrow> (a # as, s'')))"

subsection \<open>Two predicates on bodies and stores\<close>

text \<open>A body that passes both tests of the POST handler.\<close>

definition valid_body :: "body \<Rightarrow> bool" where
  "valid_body r = (\<not> missing_field r \<and> \<not> invalid_party_size r)"

text \<open>
  The uniqueness the store does keep: no two bookings share an id, and every id is below
  the counter \<^verbatim>\<open>nextId\<close>.
\<close>

definition ids_fresh :: "store \<Rightarrow> bool" where
  "ids_fresh s =
     (distinct (map booking_id (bookings s)) \<and>
      list_all (\<lambda>b. booking_id b < nextId s) (bookings s))"

section \<open>The SQL function of database/schema.sql\<close>

text \<open>
  The rows of the tables \<^verbatim>\<open>tables\<close> and \<^verbatim>\<open>bookings\<close>, with the function's own
  aliases \<^verbatim>\<open>t\<close> and \<^verbatim>\<open>b\<close> as prefixes. A column that may hold NULL is an
  \<open>option\<close>: \<^verbatim>\<open>is_available BOOLEAN DEFAULT true\<close>, \<^verbatim>\<open>table_id INT REFERENCES
  tables(id) ON DELETE SET NULL\<close> and \<^verbatim>\<open>status VARCHAR(20) DEFAULT 'confirmed'\<close> are
  not declared NOT NULL. Of \<^verbatim>\<open>bookings\<close> only the columns the function reads are
  kept, with the id and the guest count. A DATE is a day number, a TIME the number of
  microseconds since midnight; the function's three parameters are taken as not NULL.
\<close>

type_synonym sql_date = int
type_synonym sql_time = nat

record table_row =
  t_id :: int
  t_restaurant_id :: "int option"
  t_table_number :: string
  t_capacity :: int
  t_location :: "string option"
  t_is_available :: "bool option"

record booking_row =
  b_id :: int
  b_table_id :: "int option"
  b_booking_date :: sql_date
  b_booking_time :: sql_time
  b_number_of_guests :: int
  b_status :: "string option"

record database =
  tables :: "table_row list"
  booking_rows :: "booking_row list"

text \<open>\<^verbatim>\<open>RETURNS TABLE(table_id INT, table_number VARCHAR, capacity INT)\<close>\<close>

type_synonym result_row = "int \<times> string \<times> int"

definition result_capacity :: "result_row \<Rightarrow> int" where
  "result_capacity r = (case r of (i, n, c) \<Rightarrow> c)"

text \<open>
  The subquery under \<^verbatim>\<open>NOT EXISTS\<close>. A comparison with NULL is not true, so a booking
  row with no table or no status never matches.
\<close>

definition active_booking_exists :: "database \<Rightarrow> int \<Rightarrow> sql_date \<Rightarrow> sql_time \<Rightarrow> bool" where
  "active_booking_exists db tid p_date p_time =
     list_ex (\<lambda>b. b_table_id b = Some tid \<and> b_booking_date b = p_date \<and>
                   b_booking_time b = p_time \<and>
                   (b_status b = Some ''confirmed'' \<or> b_status b = Some ''pending''))
       (booking_rows db)"

text \<open>The \<^verbatim>\<open>WHERE\<close> clause of the outer query.\<close>

definition table_selected :: "database \<Rightarrow> sql_date \<Rightarrow> sql_time \<Rightarrow> int \<Rightarrow> table_row \<Rightarrow> bool" where
  "table_selected db p_date p_time p_guests t =
     (t_capacity t \<ge> p_guests \<and> t_is_available t = Some True \<and>
      \<not> active_booking_exists db (t_id t) p_date p_time)"

text \<open>\<^verbatim>\<open>SELECT t.id, t.table_number, t.capacity FROM tables t WHERE ...\<close>, before ordering.\<close>

definition selected_rows :: "database \<Rightarrow> sql_date \<Rightarrow> sql_time \<Rightarrow> int \<Rightarrow> result_row list" where
  "selected_rows db p_date p_time p_guests =
     map (\<lambda>t. (t_id t, t_table_number t, t_capacity t))
       (filter (table_selected db p_date p_time p_guests) (tables db))"

text \<open>
  \<^verbatim>\<open>ORDER BY t.capacity ASC\<close> is the query's only sort key, and SQL leaves the order
  of rows with equal keys to the implementation. The function is therefore a relation
  between its arguments and the row sequences it may return: the selected rows in any
  order that is ascending in the capacity.
\<close>

definition check_table_availability ::
    "database \<Rightarrow> sql_date \<Rightarrow> sql_time \<Rightarrow> int \<Rightarrow> result_row list \<Rightarrow> bool" where
  "check_table_availability db p_date p_time p_guests rs =
     (mset rs = mset (selected_rows db p_date p_time p_guests) \<and>
      sorted (map result_capacity rs))"

text \<open>
  The schema's sample rows: the fifteen tables, and the three bookings, whose dates the
  script gives relative to \<^verbatim>\<open>CURRENT_DATE\<close> (19:00, 20:00 and 18:30 as microseconds).
\<close>

definition sample_table :: "int \<Rightarrow> string \<Rightarrow> int \<Rightarrow> string \<Rightarrow> table_row" where
  "sample_table i n c l =
     \<lparr>t_id = i, t_restaurant_id = Some 1, t_table_number = n, t_capacity = c,
      t_location = Some l, t_is_available = Some True\<rparr>"

definition sample_booking :: "int \<Rightarrow> int \<Rightarrow> sql_date \<Rightarrow> sql_time \<Rightarrow> int \<Rightarrow> string \<Rightarrow> booking_row" where
  "sample_booking i tid d t g st =
     \<lparr>b_id = i, b_table_id = Some tid, b_booking_date = d, b_booking_time = t,
      b_number_of_guests = g, b_status = Some st\<rparr>"

definition sample_db :: "sql_date \<Rightarrow> database" where
  "sample_db today =
     \<lparr>tables =
        [sample_table 1 ''T01'' 2 ''indoor'', sample_table 2 ''T02'' 2 ''indoor'',
         sample_table 3 ''T03'' 4 ''indoor'', sample_table 4 ''T04'' 4 ''indoor'',
         sample_table 5 ''T05'' 4 ''indoor'', sample_table 6 ''T06'' 6 ''indoor'',
         sample_table 7 ''T07'' 6 ''indoor'', sample_table 8 ''T08'' 8 ''indoor'',
         sample_table 9 ''T09'' 4 ''outdoor'', sample_table 10 ''T10'' 4 ''outdoor'',
         sample_table 11 ''T11'' 6 ''outdoor'', sample_table 12 ''T12'' 2 ''terrace'',
         sample_table 13 ''T13'' 2 ''terrace'', sample_table 14 ''T14'' 4 ''terrace'',
         sample_table 15 ''T15'' 4 ''terrace''],
      booking_rows =
        [sample_booking 1 3 (today + 1) 68400000000 4 ''confirmed'',
         sample_booking 2 6 (today + 2) 72000000000 6 ''confirmed'',
         sample_booking 3 1 (today + 3) 66600000000 2 ''pending'']\<rparr>"

section \<open>Two orderings of the spec, for comparison with the code\<close>

text \<open>
  These two definitions follow the spec's words, not the source. The first is the
  table of status transitions of the spec's data model: pending to confirmed or
  cancelled, confirmed to completed, cancelled or \<^verbatim>\<open>no_show\<close>, and nothing else.
\<close>

definition spec_allowed_transition :: "string \<Rightarrow> string \<Rightarrow> bool" where
  "spec_allowed_transition old new =
     ((old = ''pending'' \<and> new = ''confirmed'') \<or>
      (old = ''pending'' \<and> new = ''cancelled'') \<or>
      (old = ''confirmed'' \<and> new = ''completed'') \<or>
      (old = ''confirmed'' \<and> new = ''cancelled'') \<or>
      (old = ''confirmed'' \<and> new = ''no_show''))"

text \<open>
  The second is the order the spec gives to candidate tables: ascending by capacity, and
  by table id among tables of equal capacity.
\<close>

definition spec_capacity_then_id :: "result_row list \<Rightarrow> bool" where
  "spec_capacity_then_id rs =
     sorted_wrt (\<lambda>(i, n, c) (i', n', c'). c < c' \<or> (c = c' \<and> i < i')) rs"

section \<open>Concrete requests and stores\<close>

text \<open>The valid body of the repository's tests, and a clock reading.\<close>

definition validBooking :: body where
  "validBooking =
     \<lparr>body_date = Some ''2026-02-15'', body_time = Some ''19:00'', body_guests = Some 4,
      body_name = Some ''Ivan Petrov'', body_email = Some ''ivan.petrov@example.com'',
      body_phone = Some ''+359888123456'', body_status = None\<rparr>"

definition clock :: string where
  "clock = ''2026-02-01T10:00:00.000Z''"

text \<open>The tests' body with the past date 2020-01-01.\<close>

definition past_booking :: body where
  "past_booking = validBooking\<lparr>body_date := Some ''2020-01-01''\<rparr>"

text \<open>The tests' body with no guest.\<close>

definition zero_guests :: body where
  "zero_guests = validBooking\<lparr>body_guests := Some 0\<rparr>"

text \<open>A body that breaks both rules of the handler: an empty name and eleven guests.\<close>

definition two_faults :: body where
  "two_faults = validBooking\<lparr>body_guests := Some 11, body_name := Some []\<rparr>"

text \<open>A body with no field at all, the base of the patches below.\<close>

definition empty_body :: body where
  "empty_body =
     \<lparr>body_date = None, body_time = None, body_guests = None, body_name = None,
      body_email = None, body_phone = None, body_status = None\<rparr>"

text \<open>A patch that carries a status and nothing else.\<close>

definition status_only :: "string \<Rightarrow> body" where
  "status_only st = empty_body\<lparr>body_status := Some st\<rparr>"

text \<open>
  A patch with a past date, a guest count above 10, an empty name and a status outside the
  schema's five values.
\<close>

definition unchecked_patch :: body where
  "unchecked_patch =
     empty_body\<lparr>body_date := Some ''2020-01-01'', body_guests := Some 50,
       body_name := Some [], body_status := Some ''archived''\<rparr>"

text \<open>The store after one valid POST on the initial store.\<close>

definition one_booking :: store where
  "one_booking = snd (createBooking clock validBooking initial_store)"

text \<open>That store after a PUT of the status cancelled.\<close>

definition cancelled_booking :: store where
  "cancelled_booking = snd (updateBooking clock (Some 1) (status_only ''cancelled'') one_booking)"

text \<open>
  The store after fourteen valid POSTs for the same date and time: by the availability
  handler's count one table is left at the slot.
\<close>

definition one_table_left :: store where
  "one_table_left = snd (serve (replicate 14 (Post clock validBooking)) initial_store)"

text \<open>
  The store after fifteen valid POSTs for the same date and time: as many confirmed
  bookings at the slot as the availability handler has tables. One more POST gives the
  second store.
\<close>

definition full_slot :: store where
  "full_slot = snd (serve (replicate 15 (Post clock validBooking)) initial_store)"

definition over_full_slot :: store where
  "over_full_slot = snd (createBooking clock validBooking full_slot)"

section \<open>Lookup by id\<close>

lemma findIndex_None_iff: "findIndex P xs = None \<longleftrightarrow> \<not> (\<exists>x \<in> set xs. P x)"
  by (induction xs) auto

lemma find_None_findIndex: "find P xs = None \<longleftrightarrow> findIndex P xs = None"
  by (induction xs) auto

lemma findIndex_Some:
  "findIndex P xs = Some k \<Longrightarrow> k < length xs \<and> P (xs ! k) \<and> (\<forall>j < k. \<not> P (xs ! j))"
proof (induction xs arbitrary: k)
  case Nil
  then show ?case by simp
next
  case (Cons x xs)
  show ?case
  proof (cases "P x")
    case True
    with Cons.prems show ?thesis by simp
  next
    case False
    with Cons.prems obtain k' where k': "findIndex P xs = Some k'" "k = Suc k'"
      by auto
    from Cons.IH [OF k'(1)] False k'(2) show ?thesis
      by (auto simp: nth_Cons split: nat.splits)
  qed
qed

lemma find_findIndex: "findIndex P xs = Some k \<Longrightarrow> find P xs = Some (xs ! k)"
  by (induction xs arbitrary: k) (auto split: if_splits)

text \<open>
  C9: for an id that no booking of the store carries (the route parameter parsed to a
  number no booking has, or to NaN), GET, PUT and DELETE by id each reply NotFound
  (status 404) and return the store exactly as it was.
\<close>

theorem unknown_id_not_found:
  assumes "\<not> (\<exists>b \<in> set (bookings s). has_id i b)"
  shows "getBooking i s = (Failure NotFound, s)
       \<and> updateBooking now i p s = (Failure NotFound, s)
       \<and> deleteBooking i s = (Failure NotFound, s)
       \<and> http_status NotFound = 404"
proof -
  from assms have idx: "findIndex (has_id i) (bookings s) = None"
    by (simp add: findIndex_None_iff)
  then have "find (has_id i) (bookings s) = None"
    by (simp add: find_None_findIndex)
  with idx show ?thesis
    by (simp add: getBooking_def updateBooking_def deleteBooking_def)
qed

theorem unknown_id_not_found_witness:
  "\<not> (\<exists>b \<in> set (bookings one_booking). has_id (Some 99999) b)
   \<and> getBooking (Some 99999) one_booking = (Failure NotFound, one_booking)
   \<and> updateBooking clock (Some 99999) (status_only ''cancelled'') one_booking
       = (Failure NotFound, one_booking)
   \<and> deleteBooking (Some 99999) one_booking = (Failure NotFound, one_booking)
   \<and> bookings one_booking \<noteq> []"
proof -
  have h: "\<not> (\<exists>b \<in> set (bookings one_booking). has_id (Some 99999) b)"
    by (simp add: one_booking_def createBooking_def missing_field_def invalid_party_size_def
        falsy_str_def falsy_num_def validBooking_def initial_store_def newBooking_def has_id_def)
  have ne: "bookings one_booking \<noteq> []"
    by (simp add: one_booking_def createBooking_def missing_field_def invalid_party_size_def
        falsy_str_def falsy_num_def validBooking_def initial_store_def)
  from unknown_id_not_found [OF h] h ne show ?thesis
    by simp
qed

section \<open>Creation\<close>

lemma createBooking_valid:
  "valid_body r \<Longrightarrow> createBooking now r s =
     (Created (newBooking now r (nextId s)),
      \<lparr>bookings = bookings s @ [newBooking now r (nextId s)], nextId = nextId s + 1\<rparr>)"
  by (simp add: createBooking_def valid_body_def)

lemma valid_validBooking: "valid_body validBooking"
  by (simp add: valid_body_def missing_field_def invalid_party_size_def falsy_str_def
      falsy_num_def validBooking_def)

lemma one_booking_eq:
  "one_booking = \<lparr>bookings = [newBooking clock validBooking 1], nextId = 2\<rparr>"
  by (simp add: one_booking_def createBooking_def missing_field_def invalid_party_size_def
        falsy_str_def falsy_num_def validBooking_def initial_store_def)

text \<open>
  A run of \<open>n\<close> identical valid POSTs: every one is answered with a new booking, the
  ids counting up from the store's \<open>nextId\<close>.
\<close>

lemma serve_replicate_post:
  assumes "valid_body r"
  shows "serve (replicate n (Post now r)) s =
     (map (\<lambda>k. Created (newBooking now r (nextId s + int k))) [0..<n],
      \<lparr>bookings = bookings s @ map (\<lambda>k. newBooking now r (nextId s + int k)) [0..<n],
       nextId = nextId s + int n\<rparr>)"
proof (induction n arbitrary: s)
  case 0
  show ?case by simp
next
  case (Suc n)
  have upt: "[0..<Suc n] = 0 # map Suc [0..<n]"
    by (simp add: upt_conv_Cons map_Suc_upt del: upt_Suc)
  show ?case
    unfolding upt replicate_Suc
    by (simp add: createBooking_valid [OF assms] Suc.IH comp_def add.assoc del: upt_Suc)
qed

lemma existing_newBooking:
  "valid_body r \<Longrightarrow>
   filter (\<lambda>b. date b = body_date r \<and> time b = body_time r \<and> status b = Some ''confirmed'')
     (map (\<lambda>k. newBooking now r (f k)) ks) = map (\<lambda>k. newBooking now r (f k)) ks"
  by (induction ks) (simp_all add: newBooking_def)

lemma existing_after_create:
  "valid_body r \<Longrightarrow>
   existingBookings (body_date r) (body_time r) (snd (createBooking now r s))
     = existingBookings (body_date r) (body_time r) s @ [newBooking now r (nextId s)]"
  by (simp add: createBooking_valid existingBookings_def newBooking_def)

lemma existing_after_posts:
  assumes "valid_body r"
  shows "existingBookings (body_date r) (body_time r) (snd (serve (replicate n (Post now r)) s))
    = existingBookings (body_date r) (body_time r) s
      @ map (\<lambda>k. newBooking now r (nextId s + int k)) [0..<n]"
  by (simp add: serve_replicate_post [OF assms] existingBookings_def
      existing_newBooking [OF assms])

lemma full_slot_eq:
  "full_slot = \<lparr>bookings = map (\<lambda>k. newBooking clock validBooking (1 + int k)) [0..<15],
       nextId = 16\<rparr>"
  unfolding full_slot_def
  by (simp add: serve_replicate_post [OF valid_validBooking] initial_store_def del: upt_Suc)

lemma full_slot_existing:
  "existingBookings (Some ''2026-02-15'') (Some ''19:00'') full_slot =
     map (\<lambda>k. newBooking clock validBooking (1 + int k)) [0..<15]"
proof -
  have "existingBookings (body_date validBooking) (body_time validBooking) full_slot =
    existingBookings (body_date validBooking) (body_time validBooking) initial_store
      @ map (\<lambda>k. newBooking clock validBooking (nextId initial_store + int k)) [0..<15]"
    unfolding full_slot_def by (rule existing_after_posts [OF valid_validBooking])
  then show ?thesis
    by (simp add: validBooking_def initial_store_def existingBookings_def del: upt_Suc)
qed

lemma serve_posts:
  assumes "valid_body r"
  shows "serve (map (\<lambda>c. Post c r) cs) s =
     (map Created (map2 (\<lambda>c k. newBooking c r (nextId s + int k)) cs [0..<length cs]),
      \<lparr>bookings = bookings s @ map2 (\<lambda>c k. newBooking c r (nextId s + int k)) cs [0..<length cs],
       nextId = nextId s + int (length cs)\<rparr>)"
proof (induction cs arbitrary: s)
  case Nil
  show ?case by simp
next
  case (Cons c cs)
  have upt: "[0..<length (c # cs)] = 0 # map Suc [0..<length cs]"
    by (simp add: upt_conv_Cons map_Suc_upt del: upt_Suc)
  show ?case
    unfolding upt
    by (simp add: createBooking_valid [OF assms] Cons.IH zip_map2 comp_def case_prod_beta
        add.assoc del: upt_Suc)
qed

lemma posted_createdAt:
  "map createdAt (map2 (\<lambda>c k. newBooking c r (f k)) cs [0..<length cs]) = cs"
  by (simp add: newBooking_def comp_def case_prod_beta map_fst_zip)

lemma posted_ids:
  "map booking_id (map2 (\<lambda>c k. newBooking c r (f k)) cs [0..<length cs]) = map f [0..<length cs]"
proof -
  have a: "map snd (zip cs [0..<length cs]) = [0..<length cs]"
    by (rule map_snd_zip) simp
  have "map booking_id (map2 (\<lambda>c k. newBooking c r (f k)) cs [0..<length cs])
      = map (f \<circ> snd) (zip cs [0..<length cs])"
    by (simp add: newBooking_def comp_def case_prod_beta)
  also have "\<dots> = map f (map snd (zip cs [0..<length cs]))"
    by (simp only: map_map)
  also have "\<dots> = map f [0..<length cs]"
    by (simp only: a)
  finally show ?thesis .
qed

lemma posted_confirmed:
  "list_all (\<lambda>b. status b = Some ''confirmed'' \<and> date b = body_date r \<and> time b = body_time r)
     (map2 (\<lambda>c k. newBooking c r (f k)) cs ks)"
  by (simp add: newBooking_def case_prod_beta list_all_iff)

lemma existing_posted:
  "list_all (\<lambda>b. status b = Some ''confirmed'' \<and> date b = d \<and> time b = t) bs \<Longrightarrow>
   filter (\<lambda>b. date b = d \<and> time b = t \<and> status b = Some ''confirmed'') bs = bs"
  by (induction bs) simp_all

lemma one_table_left_eq:
  "one_table_left = \<lparr>bookings = map (\<lambda>k. newBooking clock validBooking (1 + int k)) [0..<14],
       nextId = 15\<rparr>"
  unfolding one_table_left_def
  by (simp add: serve_replicate_post [OF valid_validBooking] initial_store_def del: upt_Suc)

lemma over_full_slot_eq:
  "over_full_slot = \<lparr>bookings = map (\<lambda>k. newBooking clock validBooking (1 + int k)) [0..<16],
       nextId = 17\<rparr>"
proof -
  have "[0..<16] = [0..<15] @ [15]"
    by (simp add: upt_rec)
  then show ?thesis
    unfolding over_full_slot_def
    by (simp add: createBooking_valid [OF valid_validBooking] full_slot_eq del: upt_Suc)
qed

lemma over_full_slot_existing:
  "existingBookings (Some ''2026-02-15'') (Some ''19:00'') over_full_slot =
     map (\<lambda>k. newBooking clock validBooking (1 + int k)) [0..<16]"
proof -
  have "filter (\<lambda>b. date b = body_date validBooking \<and> time b = body_time validBooking
                     \<and> status b = Some ''confirmed'')
          (map (\<lambda>k. newBooking clock validBooking (1 + int k)) [0..<16])
        = map (\<lambda>k. newBooking clock validBooking (1 + int k)) [0..<16]"
    by (rule existing_newBooking [OF valid_validBooking])
  then show ?thesis
    by (simp add: existingBookings_def over_full_slot_eq validBooking_def del: upt_Suc)
qed

lemma over_full_slot_card:
  "card (set (existingBookings (Some ''2026-02-15'') (Some ''19:00'') over_full_slot)) = 16"
proof -
  have "inj_on (\<lambda>k. newBooking clock validBooking (1 + int k)) (set [0..<16])"
    by (rule inj_onI) (simp add: newBooking_def)
  then have "distinct (map (\<lambda>k. newBooking clock validBooking (1 + int k)) [0..<16])"
    by (simp add: distinct_map del: upt_Suc)
  then have "card (set (map (\<lambda>k. newBooking clock validBooking (1 + int k)) [0..<16]))
      = length (map (\<lambda>k. newBooking clock validBooking (1 + int k)) [0..<16])"
    by (rule distinct_card)
  then show ?thesis
    by (simp only: over_full_slot_existing length_map length_upt diff_zero)
qed

text \<open>
  C2, as the code has it: the POST handler has no availability test and no NoAvailability
  reply. Every body that passes its two tests (no falsy field, guest count within 1..10)
  is answered 201 with a new confirmed booking, appended to the store under the id
  nextId, whatever the store already holds; the bookings the availability handler counts
  for that date and time grow by this one.
\<close>

theorem create_ignores_availability:
  assumes "\<not> missing_field r" and "\<not> invalid_party_size r"
  shows "createBooking now r s =
       (Created (newBooking now r (nextId s)),
        \<lparr>bookings = bookings s @ [newBooking now r (nextId s)], nextId = nextId s + 1\<rparr>)
     \<and> status (newBooking now r (nextId s)) = Some ''confirmed''
     \<and> existingBookings (body_date r) (body_time r) (snd (createBooking now r s))
         = existingBookings (body_date r) (body_time r) s @ [newBooking now r (nextId s)]"
  using assms by (simp add: createBooking_def existingBookings_def newBooking_def)

theorem create_ignores_availability_witness:
  "\<not> missing_field validBooking \<and> \<not> invalid_party_size validBooking
   \<and> createBooking clock validBooking one_booking =
       (Created (newBooking clock validBooking 2),
        \<lparr>bookings = [newBooking clock validBooking 1, newBooking clock validBooking 2],
         nextId = 3\<rparr>)
   \<and> length (existingBookings (Some ''2026-02-15'') (Some ''19:00'')
         (snd (createBooking clock validBooking one_booking))) = 2"
proof -
  have h: "\<not> missing_field validBooking" "\<not> invalid_party_size validBooking"
    using valid_validBooking by (simp_all add: valid_body_def)
  from create_ignores_availability [OF h, of clock one_booking] h show ?thesis
    by (simp add: one_booking_eq existingBookings_def newBooking_def validBooking_def)
qed

text \<open>
  The claim of C2 fails on the store with fifteen confirmed bookings at one slot: the
  availability handler reports no table left there (availableTables 0, isAvailable
  false), and a further valid POST for the slot is still answered with a new confirmed
  booking, the sixteenth.
\<close>

theorem full_slot_still_books:
  "availableTables (slotSummary (Some ''2026-02-15'') (Some ''19:00'') full_slot) = 0
   \<and> \<not> isAvailable (slotSummary (Some ''2026-02-15'') (Some ''19:00'') full_slot)
   \<and> fst (createBooking clock validBooking full_slot) = Created (newBooking clock validBooking 16)
   \<and> status (newBooking clock validBooking 16) = Some ''confirmed''
   \<and> length (bookings (snd (createBooking clock validBooking full_slot))) = 16"
proof -
  have "length (existingBookings (Some ''2026-02-15'') (Some ''19:00'') full_slot) = 15"
    by (simp add: full_slot_existing del: upt_Suc)
  then show ?thesis
    using valid_validBooking
    by (simp add: slotSummary_def createBooking_def valid_body_def full_slot_eq newBooking_def
        del: upt_Suc)
qed

section \<open>Validation of a new booking\<close>

text \<open>
  C7: a body with guests 0 and every other field valid fails the handler's first test,
  since 0 is falsy, and is answered with MissingField; the second test, which would give
  InvalidPartySize, also holds of it but is never reached.
\<close>

theorem zero_guests_reported_missing:
  "createBooking clock zero_guests initial_store = (Failure MissingField, initial_store)
   \<and> invalid_party_size zero_guests"
  by (simp add: createBooking_def missing_field_def invalid_party_size_def falsy_str_def
      falsy_num_def zero_guests_def validBooking_def)

text \<open>
  At every non-zero guest count the range test decides: 1 to 10 is accepted, any other
  non-zero integer is answered with InvalidPartySize.
\<close>

lemma party_size_bounds:
  assumes "valid_body r" and "g \<noteq> 0"
  shows "fst (createBooking now (r\<lparr>body_guests := Some g\<rparr>) s) =
     (if 1 \<le> g \<and> g \<le> 10 then Created (newBooking now (r\<lparr>body_guests := Some g\<rparr>) (nextId s))
      else Failure InvalidPartySize)"
  using assms
  by (auto simp: createBooking_def valid_body_def missing_field_def invalid_party_size_def
      falsy_num_def)

text \<open>
  C6: the POST handler has no test of the date. With the clock at 2026-02-01 the tests'
  body for the date 2020-01-01 is answered 201 with a confirmed booking for that date,
  where the claim, the repository's test of a past booking date and the schema's
  constraint \<^verbatim>\<open>booking_future_date\<close> all ask for a rejection.
\<close>

theorem past_date_is_booked:
  "createBooking ''2026-02-01T10:00:00.000Z'' past_booking initial_store =
     (Created (newBooking ''2026-02-01T10:00:00.000Z'' past_booking 1),
      \<lparr>bookings = [newBooking ''2026-02-01T10:00:00.000Z'' past_booking 1], nextId = 2\<rparr>)
   \<and> date (newBooking ''2026-02-01T10:00:00.000Z'' past_booking 1) = Some ''2020-01-01''
   \<and> status (newBooking ''2026-02-01T10:00:00.000Z'' past_booking 1) = Some ''confirmed''"
  by (simp add: createBooking_def missing_field_def invalid_party_size_def falsy_str_def
      falsy_num_def newBooking_def past_booking_def validBooking_def initial_store_def)

text \<open>
  C8, as the code has it: the POST handler returns at the first test that fails. A
  rejected body whose guest count is not 0 is answered with one identifier: MissingField
  when a field is absent or an empty text, whether or not the guest count is out of
  range as well, and InvalidPartySize otherwise; the store is left as it was.
\<close>

theorem create_reports_first_violation:
  assumes "body_guests r \<noteq> Some 0" and "missing_field r \<or> invalid_party_size r"
  shows "createBooking now r s =
     (Failure (if missing_field r then MissingField else InvalidPartySize), s)"
  using assms(2) by (auto simp: createBooking_def)

theorem create_reports_first_violation_witness:
  "body_guests two_faults \<noteq> Some 0
   \<and> (missing_field two_faults \<or> invalid_party_size two_faults)
   \<and> createBooking clock two_faults one_booking = (Failure MissingField, one_booking)"
proof -
  have g: "body_guests two_faults \<noteq> Some 0"
    by (simp add: two_faults_def)
  have h: "missing_field two_faults \<or> invalid_party_size two_faults"
    by (simp add: missing_field_def two_faults_def falsy_str_def)
  have m: "missing_field two_faults"
    by (simp add: missing_field_def two_faults_def falsy_str_def)
  from create_reports_first_violation [OF g h, of clock one_booking] g h m
  show ?thesis by simp
qed

text \<open>
  The claim of C8 fails on a body with an empty name and eleven guests: both rules are
  violated, and the reply names MissingField alone.
\<close>

theorem second_violation_unreported:
  "missing_field two_faults \<and> invalid_party_size two_faults
   \<and> createBooking clock two_faults initial_store = (Failure MissingField, initial_store)"
  by (simp add: createBooking_def missing_field_def invalid_party_size_def two_faults_def
      falsy_str_def)

section \<open>Updates\<close>

text \<open>
  C10: for a booking that exists, PUT stores every truthy patch field as it is, with no
  check of its value (a guest count outside 1..10, a past date, any status text), keeps
  the booking's value where the patch field is falsy (absent, empty string, 0), always
  sets updatedAt to the clock reading, and leaves id and createdAt alone. The reply
  carries the patched booking, which replaces the old one at its place in the array.
\<close>

theorem update_stores_patch_as_is:
  assumes "find (has_id i) (bookings s) = Some b"
  shows "\<exists>k b'. updateBooking now i p s = (Updated b', s\<lparr>bookings := (bookings s)[k := b']\<rparr>)
     \<and> k < length (bookings s) \<and> bookings s ! k = b
     \<and> date b' = (if falsy_str (body_date p) then date b else body_date p)
     \<and> time b' = (if falsy_str (body_time p) then time b else body_time p)
     \<and> guests b' = (if falsy_num (body_guests p) then guests b else body_guests p)
     \<and> name b' = (if falsy_str (body_name p) then name b else body_name p)
     \<and> email b' = (if falsy_str (body_email p) then email b else body_email p)
     \<and> phone b' = (if falsy_str (body_phone p) then phone b else body_phone p)
     \<and> status b' = (if falsy_str (body_status p) then status b else body_status p)
     \<and> updatedAt b' = Some now
     \<and> booking_id b' = booking_id b \<and> createdAt b' = createdAt b"
proof -
  from assms obtain k where k: "findIndex (has_id i) (bookings s) = Some k"
    by (cases "findIndex (has_id i) (bookings s)") (auto simp: find_None_findIndex [symmetric])
  with assms have b: "bookings s ! k = b"
    by (simp add: find_findIndex)
  from k have len: "k < length (bookings s)"
    by (simp add: findIndex_Some)
  show ?thesis
    apply (rule exI [of _ k])
    apply (rule exI [of _ "apply_patch now p b"])
    using k b len
    apply (simp add: updateBooking_def apply_patch_def patch_str_def patch_num_def)
    done
qed

theorem update_stores_patch_as_is_witness:
  "find (has_id (Some 1)) (bookings one_booking) = Some (newBooking clock validBooking 1)
   \<and> updateBooking ''2026-02-02T08:00:00.000Z'' (Some 1) unchecked_patch one_booking =
      (Updated ((newBooking clock validBooking 1)
         \<lparr>date := Some ''2020-01-01'', guests := Some 50, status := Some ''archived'',
          updatedAt := Some ''2026-02-02T08:00:00.000Z''\<rparr>),
       \<lparr>bookings = [(newBooking clock validBooking 1)
         \<lparr>date := Some ''2020-01-01'', guests := Some 50, status := Some ''archived'',
          updatedAt := Some ''2026-02-02T08:00:00.000Z''\<rparr>], nextId = 2\<rparr>)"
proof -
  have h: "find (has_id (Some 1)) (bookings one_booking) = Some (newBooking clock validBooking 1)"
    by (simp add: one_booking_eq has_id_def newBooking_def)
  from update_stores_patch_as_is [OF h, of "''2026-02-02T08:00:00.000Z''" unchecked_patch]
  obtain k b' where
    "updateBooking ''2026-02-02T08:00:00.000Z'' (Some 1) unchecked_patch one_booking
       = (Updated b', one_booking\<lparr>bookings := (bookings one_booking)[k := b']\<rparr>)"
    by blast
  with h show ?thesis
    by (simp add: one_booking_eq updateBooking_def has_id_def newBooking_def apply_patch_def
        patch_str_def patch_num_def falsy_str_def falsy_num_def unchecked_patch_def empty_body_def
        validBooking_def)
qed

lemma apply_status_only:
  "st \<noteq> [] \<Longrightarrow> apply_patch now (status_only st) b = b\<lparr>status := Some st, updatedAt := Some now\<rparr>"
  by (simp add: apply_patch_def status_only_def empty_body_def patch_str_def patch_num_def
      falsy_str_def falsy_num_def)

lemma cancelled_booking_eq:
  "cancelled_booking =
     \<lparr>bookings = [(newBooking clock validBooking 1)
        \<lparr>status := Some ''cancelled'', updatedAt := Some clock\<rparr>], nextId = 2\<rparr>"
  by (simp add: cancelled_booking_def one_booking_eq updateBooking_def has_id_def newBooking_def
      apply_status_only)

text \<open>
  C3, as the code has it: PUT consults no transition table and has no InvalidTransition
  reply. For a booking that exists and a patch that carries only a non-empty status, the
  status is stored whatever the booking's current status and whatever the new text is;
  updatedAt is set, nothing else of the booking changes, and the reply is the updated
  booking.
\<close>

theorem status_update_unrestricted:
  assumes "find (has_id i) (bookings s) = Some b" and "st \<noteq> []"
  shows "\<exists>k. updateBooking now i (status_only st) s =
           (Updated (b\<lparr>status := Some st, updatedAt := Some now\<rparr>),
            s\<lparr>bookings := (bookings s)[k := b\<lparr>status := Some st, updatedAt := Some now\<rparr>]\<rparr>)
         \<and> k < length (bookings s) \<and> bookings s ! k = b"
proof -
  from assms(1) obtain k where k: "findIndex (has_id i) (bookings s) = Some k"
    by (cases "findIndex (has_id i) (bookings s)") (auto simp: find_None_findIndex [symmetric])
  with assms(1) have b: "bookings s ! k = b"
    by (simp add: find_findIndex)
  from k have "k < length (bookings s)"
    by (simp add: findIndex_Some)
  with k b show ?thesis
    by (intro exI [of _ k]) (simp add: updateBooking_def apply_status_only [OF assms(2)])
qed

theorem status_update_unrestricted_witness:
  "find (has_id (Some 1)) (bookings cancelled_booking)
     = Some ((newBooking clock validBooking 1)\<lparr>status := Some ''cancelled'', updatedAt := Some clock\<rparr>)
   \<and> ''pending'' \<noteq> []
   \<and> fst (updateBooking ''2026-02-03T09:00:00.000Z'' (Some 1) (status_only ''pending'')
        cancelled_booking)
      = Updated ((newBooking clock validBooking 1)
          \<lparr>status := Some ''pending'', updatedAt := Some ''2026-02-03T09:00:00.000Z''\<rparr>)"
proof -
  have h: "find (has_id (Some 1)) (bookings cancelled_booking)
     = Some ((newBooking clock validBooking 1)\<lparr>status := Some ''cancelled'', updatedAt := Some clock\<rparr>)"
    by (simp add: cancelled_booking_eq has_id_def newBooking_def)
  have ne: "''pending'' \<noteq> []" by simp
  from status_update_unrestricted [OF h ne, of "''2026-02-03T09:00:00.000Z''"] h
  show ?thesis by auto
qed

text \<open>
  The claim of C3 fails on a cancelled booking: the transition from cancelled to
  confirmed is not in the spec's table, and PUT stores it and replies with the booking,
  now confirmed.
\<close>

theorem cancelled_booking_reconfirmed:
  "\<not> spec_allowed_transition ''cancelled'' ''confirmed''
   \<and> map status (bookings cancelled_booking) = [Some ''cancelled'']
   \<and> updateBooking ''2026-02-03T09:00:00.000Z'' (Some 1) (status_only ''confirmed'')
        cancelled_booking
      = (Updated ((newBooking clock validBooking 1)
           \<lparr>status := Some ''confirmed'', updatedAt := Some ''2026-02-03T09:00:00.000Z''\<rparr>),
         \<lparr>bookings = [(newBooking clock validBooking 1)
           \<lparr>status := Some ''confirmed'', updatedAt := Some ''2026-02-03T09:00:00.000Z''\<rparr>],
          nextId = 2\<rparr>)"
  by (simp add: spec_allowed_transition_def cancelled_booking_eq updateBooking_def has_id_def
      newBooking_def apply_status_only)

section \<open>Reachable stores\<close>

lemma booking_id_apply_patch [simp]: "booking_id (apply_patch now p b) = booking_id b"
  by (simp add: apply_patch_def)

lemma ids_after_update:
  "k < length xs \<Longrightarrow> map booking_id (xs[k := apply_patch now p (xs ! k)]) = map booking_id xs"
  by (simp add: map_update list_update_same_conv)

lemma distinct_splice1: "distinct ys \<Longrightarrow> distinct (splice1 k ys)"
  unfolding splice1_def
  by (simp add: set_take_disj_set_drop_if_distinct)

lemma map_splice1: "map f (splice1 k xs) = splice1 k (map f xs)"
  by (simp add: splice1_def take_map drop_map)

lemma set_splice1: "set (splice1 k xs) \<subseteq> set xs"
  unfolding splice1_def
  using set_take_subset [of k xs] set_drop_subset [of "Suc k" xs] by auto

lemma ids_fresh_create: "ids_fresh s \<Longrightarrow> ids_fresh (snd (createBooking now r s))"
  by (auto simp: ids_fresh_def createBooking_def newBooking_def list_all_iff)

lemma ids_fresh_update: "ids_fresh s \<Longrightarrow> ids_fresh (snd (updateBooking now i p s))"
proof (cases "findIndex (has_id i) (bookings s)")
  case None
  assume "ids_fresh s"
  with None show ?thesis by (simp add: updateBooking_def)
next
  case (Some k)
  assume fresh: "ids_fresh s"
  from Some have len: "k < length (bookings s)"
    by (simp add: findIndex_Some)
  have ids: "map booking_id ((bookings s)[k := apply_patch now p (bookings s ! k)])
      = map booking_id (bookings s)"
    using len by (rule ids_after_update)
  have "list_all (\<lambda>b. booking_id b < nextId s) ((bookings s)[k := apply_patch now p (bookings s ! k)])"
  proof -
    have "list_all (\<lambda>n. n < nextId s) (map booking_id (bookings s))"
      using fresh by (simp add: ids_fresh_def list_all_iff)
    then have "list_all (\<lambda>n. n < nextId s)
        (map booking_id ((bookings s)[k := apply_patch now p (bookings s ! k)]))"
      by (simp only: ids)
    then show ?thesis by (simp add: list_all_iff)
  qed
  with fresh ids Some show ?thesis
    by (simp add: updateBooking_def ids_fresh_def)
qed

lemma ids_fresh_delete: "ids_fresh s \<Longrightarrow> ids_fresh (snd (deleteBooking i s))"
proof (cases "findIndex (has_id i) (bookings s)")
  case None
  assume "ids_fresh s"
  with None show ?thesis by (simp add: deleteBooking_def)
next
  case (Some k)
  assume fresh: "ids_fresh s"
  then have "distinct (map booking_id (splice1 k (bookings s)))"
    by (simp add: map_splice1 distinct_splice1 ids_fresh_def)
  moreover have "list_all (\<lambda>b. booking_id b < nextId s) (splice1 k (bookings s))"
    using fresh set_splice1 [of k "bookings s"] by (auto simp: ids_fresh_def list_all_iff)
  ultimately show ?thesis
    using Some by (simp add: deleteBooking_def ids_fresh_def)
qed

lemma ids_fresh_handle: "ids_fresh s \<Longrightarrow> ids_fresh (snd (handle q s))"
proof (cases q)
  case GetAll
  assume "ids_fresh s"
  with GetAll show ?thesis by (simp add: getAllBookings_def)
next
  case (Get i)
  assume "ids_fresh s"
  with Get show ?thesis by (simp add: getBooking_def split: option.splits)
next
  case (Post now r)
  assume "ids_fresh s"
  with Post show ?thesis by (simp add: ids_fresh_create)
next
  case (Put now i p)
  assume "ids_fresh s"
  with Put show ?thesis by (simp add: ids_fresh_update)
next
  case (Delete i)
  assume "ids_fresh s"
  with Delete show ?thesis by (simp add: ids_fresh_delete)
next
  case (Check d t)
  assume "ids_fresh s"
  with Check show ?thesis by (simp add: checkAvailability_def)
qed

lemma snd_serve_Cons: "snd (serve (q # qs) s) = snd (serve qs (snd (handle q s)))"
  by (cases "handle q s"; cases "serve qs (snd (handle q s))") simp

lemma ids_fresh_serve: "ids_fresh s \<Longrightarrow> ids_fresh (snd (serve qs s))"
proof (induction qs arbitrary: s)
  case Nil
  then show ?case by simp
next
  case (Cons q qs)
  from Cons.prems have "ids_fresh (snd (handle q s))"
    by (rule ids_fresh_handle)
  then have "ids_fresh (snd (serve qs (snd (handle q s))))"
    by (rule Cons.IH)
  then show ?case
    by (simp only: snd_serve_Cons)
qed

lemma ids_fresh_initial: "ids_fresh initial_store"
  by (simp add: ids_fresh_def initial_store_def)

text \<open>
  C1, as the code has it: a booking of the store carries no table, and the POST handler
  looks at no other booking. What every store reachable from the initial one keeps is
  that booking ids are pairwise distinct and below nextId. A slot is not kept unique: on
  any store, also one where the availability handler counts a single table left or none,
  identical valid POSTs (one per clock reading) are each answered with a new booking;
  the bookings are stored in order under the ids nextId, nextId + 1, ..., each with status
  confirmed for the body's date and time, and the handler's count of occupied tables at
  that date and time grows by the number of requests. No request fails.
\<close>

theorem store_keeps_ids_not_slots:
  assumes "\<not> missing_field r" and "\<not> invalid_party_size r"
  shows "ids_fresh (snd (serve qs initial_store))
     \<and> (\<exists>bs. serve (map (\<lambda>c. Post c r) cs) s =
               (map Created bs,
                \<lparr>bookings = bookings s @ bs, nextId = nextId s + int (length cs)\<rparr>)
           \<and> map createdAt bs = cs
           \<and> map booking_id bs = map (\<lambda>k. nextId s + int k) [0..<length cs]
           \<and> list_all (\<lambda>b. status b = Some ''confirmed'' \<and> date b = body_date r
                            \<and> time b = body_time r) bs)
     \<and> occupiedTables (slotSummary (body_date r) (body_time r)
          (snd (serve (map (\<lambda>c. Post c r) cs) s)))
         = occupiedTables (slotSummary (body_date r) (body_time r) s) + int (length cs)"
proof -
  from assms have v: "valid_body r"
    by (simp add: valid_body_def)
  let ?bs = "map2 (\<lambda>c k. newBooking c r (nextId s + int k)) cs [0..<length cs]"
  have inv: "ids_fresh (snd (serve qs initial_store))"
    using ids_fresh_initial by (rule ids_fresh_serve)
  have run: "serve (map (\<lambda>c. Post c r) cs) s =
      (map Created ?bs, \<lparr>bookings = bookings s @ ?bs, nextId = nextId s + int (length cs)\<rparr>)"
    by (rule serve_posts [OF v])
  have all: "list_all (\<lambda>b. status b = Some ''confirmed'' \<and> date b = body_date r
                            \<and> time b = body_time r) ?bs"
    by (rule posted_confirmed)
  have len: "length ?bs = length cs"
    by simp
  have occ: "occupiedTables (slotSummary (body_date r) (body_time r)
          (snd (serve (map (\<lambda>c. Post c r) cs) s)))
         = occupiedTables (slotSummary (body_date r) (body_time r) s) + int (length cs)"
    unfolding run
    by (simp add: slotSummary_def existingBookings_def existing_posted [OF all] del: upt_Suc)
  have "\<exists>bs. serve (map (\<lambda>c. Post c r) cs) s =
               (map Created bs,
                \<lparr>bookings = bookings s @ bs, nextId = nextId s + int (length cs)\<rparr>)
           \<and> map createdAt bs = cs
           \<and> map booking_id bs = map (\<lambda>k. nextId s + int k) [0..<length cs]
           \<and> list_all (\<lambda>b. status b = Some ''confirmed'' \<and> date b = body_date r
                            \<and> time b = body_time r) bs"
    using run all posted_createdAt [of r "\<lambda>k. nextId s + int k" cs]
      posted_ids [of r "\<lambda>k. nextId s + int k" cs]
    by (intro exI [of _ ?bs]) simp
  with inv occ show ?thesis by blast
qed

theorem store_keeps_ids_not_slots_witness:
  "\<not> missing_field validBooking \<and> \<not> invalid_party_size validBooking
   \<and> ids_fresh (snd (serve [Post clock validBooking, Delete (Some 1), Post clock validBooking]
        initial_store))
   \<and> occupiedTables (slotSummary (Some ''2026-02-15'') (Some ''19:00'')
        (snd (serve [Post ''2026-02-01T10:00:00.000Z'' validBooking,
                     Post ''2026-02-01T10:00:05.000Z'' validBooking,
                     Post ''2026-02-01T10:00:09.000Z'' validBooking] full_slot))) = 18"
proof -
  have h: "\<not> missing_field validBooking" "\<not> invalid_party_size validBooking"
    using valid_validBooking by (simp_all add: valid_body_def)
  have occ: "occupiedTables (slotSummary (Some ''2026-02-15'') (Some ''19:00'') full_slot) = 15"
    by (simp add: slotSummary_def full_slot_existing del: upt_Suc)
  from store_keeps_ids_not_slots [OF h,
      of "[Post clock validBooking, Delete (Some 1), Post clock validBooking]"
         "[''2026-02-01T10:00:00.000Z'', ''2026-02-01T10:00:05.000Z'', ''2026-02-01T10:00:09.000Z'']"
         full_slot]
    h occ
  show ?thesis
    by (simp add: validBooking_def)
qed

text \<open>
  The claim of C1 fails on the store where the availability handler counts exactly one
  table left at the slot (fourteen confirmed bookings, availableTables 1): two identical
  valid POSTs for the slot are both answered with a confirmed booking and neither fails.
  The slot then holds sixteen confirmed bookings for fifteen tables, so whatever table
  each booking is taken to hold, two active bookings hold the same table, date and time.
\<close>

theorem last_table_booked_twice:
  "availableTables (slotSummary (Some ''2026-02-15'') (Some ''19:00'') one_table_left) = 1
   \<and> serve [Post clock validBooking, Post clock validBooking] one_table_left =
       ([Created (newBooking clock validBooking 15), Created (newBooking clock validBooking 16)],
        over_full_slot)
   \<and> status (newBooking clock validBooking 15) = Some ''confirmed''
   \<and> status (newBooking clock validBooking 16) = Some ''confirmed''
   \<and> totalTables (slotSummary (Some ''2026-02-15'') (Some ''19:00'') over_full_slot) = 15
   \<and> occupiedTables (slotSummary (Some ''2026-02-15'') (Some ''19:00'') over_full_slot) = 16
   \<and> \<not> (\<exists>table_of :: booking \<Rightarrow> nat.
          table_of ` set (existingBookings (Some ''2026-02-15'') (Some ''19:00'') over_full_slot)
            \<subseteq> {1..15}
          \<and> inj_on table_of
               (set (existingBookings (Some ''2026-02-15'') (Some ''19:00'') over_full_slot)))"
proof -
  let ?S = "set (existingBookings (Some ''2026-02-15'') (Some ''19:00'') over_full_slot)"
  have a: "availableTables (slotSummary (Some ''2026-02-15'') (Some ''19:00'') one_table_left) = 1"
  proof -
    have "existingBookings (body_date validBooking) (body_time validBooking) one_table_left =
      existingBookings (body_date validBooking) (body_time validBooking) initial_store
        @ map (\<lambda>k. newBooking clock validBooking (nextId initial_store + int k)) [0..<14]"
      unfolding one_table_left_def by (rule existing_after_posts [OF valid_validBooking])
    then have "length (existingBookings (Some ''2026-02-15'') (Some ''19:00'') one_table_left) = 14"
      by (simp add: validBooking_def initial_store_def existingBookings_def del: upt_Suc)
    then show ?thesis
      by (simp add: slotSummary_def)
  qed
  have upt16: "[0..<16] = [0..<14] @ [14, 15]"
    by (simp add: upt_rec)
  have b: "serve [Post clock validBooking, Post clock validBooking] one_table_left =
       ([Created (newBooking clock validBooking 15), Created (newBooking clock validBooking 16)],
        over_full_slot)"
    by (simp add: createBooking_valid [OF valid_validBooking] one_table_left_eq over_full_slot_eq
        upt16 del: upt_Suc)
  have c: "occupiedTables (slotSummary (Some ''2026-02-15'') (Some ''19:00'') over_full_slot) = 16"
    by (simp add: slotSummary_def over_full_slot_existing del: upt_Suc)
  have d: "\<not> (\<exists>table_of :: booking \<Rightarrow> nat. table_of ` ?S \<subseteq> {1..15} \<and> inj_on table_of ?S)"
  proof
    assume "\<exists>table_of :: booking \<Rightarrow> nat. table_of ` ?S \<subseteq> {1..15} \<and> inj_on table_of ?S"
    then obtain table_of :: "booking \<Rightarrow> nat"
      where sub: "table_of ` ?S \<subseteq> {1..15}" and inj: "inj_on table_of ?S"
      by blast
    from inj have "card (table_of ` ?S) = 16"
      by (simp add: card_image over_full_slot_card)
    moreover from sub have "card (table_of ` ?S) \<le> card {1..15::nat}"
      by (intro card_mono) simp_all
    ultimately show False by simp
  qed
  from a b c d show ?thesis
    by (simp add: newBooking_def slotSummary_def)
qed

section \<open>The availability summary\<close>

text \<open>
  C4, as the code has it: a stored booking carries no table, and the availability handler
  counts bookings. For a non-empty date and time, on every store with no pending booking
  at that date and time, the handler replies with totalTables 15, with occupiedTables the
  number of bookings (array entries) whose date and time are exactly the given ones and
  whose status is pending or confirmed, with availableTables = totalTables -
  occupiedTables, which may be negative, and with isAvailable true exactly when fewer
  than 15 are counted. The store is left as it was.
\<close>

theorem slot_summary_counts_bookings:
  assumes "\<not> falsy_str d" and "\<not> falsy_str t"
    and "\<not> list_ex (\<lambda>b. date b = d \<and> time b = t \<and> status b = Some ''pending'') (bookings s)"
  shows "\<exists>sm. checkAvailability d t s = (Availability sm, s)
     \<and> totalTables sm = 15
     \<and> occupiedTables sm =
         int (card {k. k < length (bookings s) \<and> date (bookings s ! k) = d
                     \<and> time (bookings s ! k) = t
                     \<and> (status (bookings s ! k) = Some ''pending''
                          \<or> status (bookings s ! k) = Some ''confirmed'')})
     \<and> availableTables sm = totalTables sm - occupiedTables sm
     \<and> isAvailable sm = (occupiedTables sm < totalTables sm)"
proof -
  have "{k. k < length (bookings s) \<and> date (bookings s ! k) = d \<and> time (bookings s ! k) = t
           \<and> (status (bookings s ! k) = Some ''pending''
                \<or> status (bookings s ! k) = Some ''confirmed'')}
      = {k. k < length (bookings s) \<and> date (bookings s ! k) = d \<and> time (bookings s ! k) = t
           \<and> status (bookings s ! k) = Some ''confirmed''}"
    using assms(3) by (auto simp: list_ex_iff)
  with assms(1,2) show ?thesis
    by (simp add: checkAvailability_def slotSummary_def existingBookings_def
        length_filter_conv_card)
qed

theorem slot_summary_counts_bookings_witness:
  "\<not> falsy_str (Some ''2026-02-15'') \<and> \<not> falsy_str (Some ''19:00'')
   \<and> \<not> list_ex (\<lambda>b. date b = Some ''2026-02-15'' \<and> time b = Some ''19:00''
                      \<and> status b = Some ''pending'') (bookings one_booking)
   \<and> checkAvailability (Some ''2026-02-15'') (Some ''19:00'') one_booking =
       (Availability \<lparr>summary_date = Some ''2026-02-15'', summary_time = Some ''19:00'',
          totalTables = 15, occupiedTables = 1, availableTables = 14, isAvailable = True\<rparr>,
        one_booking)"
proof -
  have h: "\<not> falsy_str (Some ''2026-02-15'')" "\<not> falsy_str (Some ''19:00'')"
    by (simp_all add: falsy_str_def)
  have np: "\<not> list_ex (\<lambda>b. date b = Some ''2026-02-15'' \<and> time b = Some ''19:00''
                      \<and> status b = Some ''pending'') (bookings one_booking)"
    by (simp add: one_booking_eq newBooking_def)
  from slot_summary_counts_bookings [OF h np] h np
  show ?thesis
    by (auto simp: checkAvailability_def slotSummary_def existingBookings_def one_booking_eq
        newBooking_def validBooking_def)
qed

text \<open>
  The claim of C4 fails on the store with sixteen confirmed bookings at the slot:
  occupiedTables is 16, more than the 15 tables there are, and availableTables is -1. The
  handler counts bookings, not tables.
\<close>

theorem slot_summary_exceeds_tables:
  "map status (existingBookings (Some ''2026-02-15'') (Some ''19:00'') over_full_slot)
     = replicate 16 (Some ''confirmed'')
   \<and> totalTables (slotSummary (Some ''2026-02-15'') (Some ''19:00'') over_full_slot) = 15
   \<and> occupiedTables (slotSummary (Some ''2026-02-15'') (Some ''19:00'') over_full_slot) = 16
   \<and> availableTables (slotSummary (Some ''2026-02-15'') (Some ''19:00'') over_full_slot) = - 1"
proof -
  have "map status (map (\<lambda>k. newBooking clock validBooking (1 + int k)) [0..<16])
      = replicate 16 (Some ''confirmed'')"
    by (simp add: newBooking_def comp_def map_replicate_const del: upt_Suc)
  then show ?thesis
    by (simp add: slotSummary_def over_full_slot_existing del: upt_Suc)
qed

section \<open>Candidate tables\<close>

lemma sorted_hd_min:
  "sorted (map f rs) \<Longrightarrow> x \<in> set rs \<Longrightarrow> f (hd rs) \<le> f x"
  by (cases rs) auto

lemma set_selected_rows:
  "set (selected_rows db d t p) =
     {(t_id r, t_table_number r, t_capacity r) | r.
        r \<in> set (tables db) \<and> t_capacity r \<ge> p \<and> t_is_available r = Some True \<and>
        \<not> (\<exists>b \<in> set (booking_rows db).
             b_table_id b = Some (t_id r) \<and> b_booking_date b = d \<and> b_booking_time b = t \<and>
             (b_status b = Some ''confirmed'' \<or> b_status b = Some ''pending''))}"
  by (auto simp: selected_rows_def table_selected_def active_booking_exists_def list_ex_iff)

lemma sample_selected:
  "selected_rows (sample_db 0) 2 72000000000 6 = [(7, ''T07'', 6), (8, ''T08'', 8), (11, ''T11'', 6)]"
  by (simp add: selected_rows_def table_selected_def active_booking_exists_def sample_db_def
      sample_table_def sample_booking_def)

text \<open>
  C5, as the code has it: the function always has a result, and every result holds
  exactly the tables with capacity at least \<open>p\<close>, \<^verbatim>\<open>is_available\<close> true and no booking of
  status confirmed or pending for that table, date and time, one row per table row, in
  ascending order of capacity; so its first row is a table of least capacity that fits.
  The order among tables of equal capacity is not fixed.
\<close>

theorem candidates_sorted_by_capacity_only:
  "(\<exists>rs. check_table_availability db d t p rs)
   \<and> (\<forall>rs. check_table_availability db d t p rs \<longrightarrow>
        set rs =
          {(t_id r, t_table_number r, t_capacity r) | r.
             r \<in> set (tables db) \<and> t_capacity r \<ge> p \<and> t_is_available r = Some True \<and>
             \<not> (\<exists>b \<in> set (booking_rows db).
                  b_table_id b = Some (t_id r) \<and> b_booking_date b = d \<and> b_booking_time b = t \<and>
                  (b_status b = Some ''confirmed'' \<or> b_status b = Some ''pending''))}
        \<and> length rs = length (filter (table_selected db d t p) (tables db))
        \<and> sorted (map result_capacity rs)
        \<and> (\<forall>x \<in> set rs. result_capacity (hd rs) \<le> result_capacity x))"
proof (intro conjI allI impI)
  show "\<exists>rs. check_table_availability db d t p rs"
    by (rule exI [of _ "sort_key result_capacity (selected_rows db d t p)"])
       (simp add: check_table_availability_def)
next
  fix rs
  assume a: "check_table_availability db d t p rs"
  then have m: "mset rs = mset (selected_rows db d t p)"
    and s: "sorted (map result_capacity rs)"
    by (simp_all add: check_table_availability_def)
  from m have "set rs = set (selected_rows db d t p)"
    by (rule mset_eq_setD)
  then show "set rs =
          {(t_id r, t_table_number r, t_capacity r) | r.
             r \<in> set (tables db) \<and> t_capacity r \<ge> p \<and> t_is_available r = Some True \<and>
             \<not> (\<exists>b \<in> set (booking_rows db).
                  b_table_id b = Some (t_id r) \<and> b_booking_date b = d \<and> b_booking_time b = t \<and>
                  (b_status b = Some ''confirmed'' \<or> b_status b = Some ''pending''))}"
    by (simp only: set_selected_rows)
  from m have "length rs = length (selected_rows db d t p)"
    by (rule mset_eq_length)
  then show "length rs = length (filter (table_selected db d t p) (tables db))"
    by (simp add: selected_rows_def)
  from s show "sorted (map result_capacity rs)" .
  from s show "\<forall>x \<in> set rs. result_capacity (hd rs) \<le> result_capacity x"
    by (blast intro: sorted_hd_min)
qed

theorem candidates_sorted_by_capacity_only_witness:
  "check_table_availability (sample_db 0) 2 72000000000 6
     [(7, ''T07'', 6), (11, ''T11'', 6), (8, ''T08'', 8)]
   \<and> set [(7, ''T07'', 6), (11, ''T11'', 6), (8, ''T08'', 8)]
       = set (selected_rows (sample_db 0) 2 72000000000 6)
   \<and> result_capacity (hd [(7, ''T07'', 6), (11, ''T11'', 6), (8::int, ''T08'', 8::int)]) = 6"
proof -
  have c: "check_table_availability (sample_db 0) 2 72000000000 6
     [(7, ''T07'', 6), (11, ''T11'', 6), (8, ''T08'', 8)]"
    by (simp add: check_table_availability_def sample_selected result_capacity_def)
  from candidates_sorted_by_capacity_only [of "sample_db 0" 2 72000000000 6] c
  have "set [(7, ''T07'', 6), (11, ''T11'', 6), (8, ''T08'', 8)]
       = set (selected_rows (sample_db 0) 2 72000000000 6)"
    by (simp only: set_selected_rows)
  with c show ?thesis
    by (simp add: result_capacity_def)
qed

text \<open>
  The claim of C5 fails on the schema's sample rows, for six guests on the day and hour
  of the second sample booking (table 6 is taken): T11, T07, T08 is a result of the
  function, and it is not in the spec's order, table 11 standing before table 7 of the
  same capacity.
\<close>

theorem tie_order_not_by_id:
  "check_table_availability (sample_db 0) 2 72000000000 6
     [(11, ''T11'', 6), (7, ''T07'', 6), (8, ''T08'', 8)]
   \<and> \<not> spec_capacity_then_id [(11, ''T11'', 6), (7, ''T07'', 6), (8, ''T08'', 8)]"
  by (simp add: check_table_availability_def sample_selected result_capacity_def
      spec_capacity_then_id_def)

end
